theory Spec2Isabelle
  imports Main
begin

section \<open>The greeting operator (cmd/greeting-operator/main.go)\<close>

text \<open>
  The operator builds three Kubernetes resources from its configuration and submits them
  to the cluster through a client: a namespace (create only), a deployment and a service
  (create, and update when the create call reports that the resource exists).

  The embedding keeps the structure of \<^verbatim>\<open>main.go\<close>. The client is a function from a
  request and the state of the world to an optional error and the next state; the methods
  of the operator pass that state along. The object a successful call returns is discarded
  by the source (\<^verbatim>\<open>_, err := ...\<close>) and is therefore not part of the result. The calls
  to the logger have no influence on control flow and are left out. Go's \<^verbatim>\<open>int\<close>,
  \<^verbatim>\<open>uint\<close> and \<^verbatim>\<open>int32\<close> values are \<^typ>\<open>int\<close> and \<^typ>\<open>nat\<close> here. The program does no
  arithmetic on them; the one place where the width of an integer matters is the
  conversion of the port, a Go \<^verbatim>\<open>int\<close>, to \<^verbatim>\<open>int32\<close> inside \<^verbatim>\<open>intstr.FromInt\<close>, and
  there the wrap-around is written out (\<open>int32\<close> below).
\<close>

subsection \<open>Errors\<close>

text \<open>
  An error of the cluster API carries a status reason; \<^verbatim>\<open>fmt.Errorf("prefix: %w", err)\<close>
  wraps an error under a prefix. \<^verbatim>\<open>kerror.IsAlreadyExists\<close> asks for the reason of the
  API status found in the chain of wrapped errors.
\<close>

datatype StatusReason =
    StatusReasonAlreadyExists
  | StatusReasonNotFound
  | StatusReasonConflict
  | StatusReasonInvalid
  | StatusReasonUnknown

datatype error =
    StatusError StatusReason
  | ErrorString string
  | Errorf string error

fun IsAlreadyExists :: "error \<Rightarrow> bool" where
  "IsAlreadyExists (StatusError r) = (r = StatusReasonAlreadyExists)"
| "IsAlreadyExists (ErrorString m) = False"
| "IsAlreadyExists (Errorf p e) = IsAlreadyExists e"

subsection \<open>The resources, with the fields the operator sets\<close>

text \<open>
  Every field the source leaves out of a composite literal has Go's zero value; only the
  fields that some literal of \<^verbatim>\<open>main.go\<close> sets are kept. A \<^verbatim>\<open>map[string]string\<close> is a
  map, a pointer that may be nil an option.
\<close>

record meta_ObjectMeta =
  ObjectMeta_Name :: string
  ObjectMeta_Labels :: "string \<rightharpoonup> string"

record api_Namespace =
  Namespace_ObjectMeta :: meta_ObjectMeta

datatype api_Protocol = ProtocolTCP | ProtocolUDP | ProtocolSCTP

text \<open>
  An \<^verbatim>\<open>IntOrString\<close> is a struct of a type tag, an \<^verbatim>\<open>int32\<close> and a string.
  \<^verbatim>\<open>intstr.FromInt(val int)\<close> returns \<^verbatim>\<open>IntOrString{Type: Int, IntVal: int32(val)}\<close>:
  the conversion keeps the low 32 bits of \<^verbatim>\<open>val\<close> and reads them as a signed number, so a
  value outside the range of \<^verbatim>\<open>int32\<close> wraps around (the library logs an error then and
  goes on).
\<close>

datatype intstr_Type = intstr_Int | intstr_String

record intstr_IntOrString =
  IntOrString_Type :: intstr_Type
  IntOrString_IntVal :: int
  IntOrString_StrVal :: string

definition int32 :: "int \<Rightarrow> int" where
  "int32 val = (val + 2147483648) mod 4294967296 - 2147483648"

definition FromInt :: "int \<Rightarrow> intstr_IntOrString" where
  "FromInt val =
     \<lparr>IntOrString_Type = intstr_Int,
      IntOrString_IntVal = int32 val,
      IntOrString_StrVal = []\<rparr>"

record api_ContainerPort =
  ContainerPort_Name :: string
  ContainerPort_Protocol :: api_Protocol
  ContainerPort_ContainerPort :: int

record api_EnvVar =
  EnvVar_Name :: string
  EnvVar_Value :: string

record api_HTTPGetAction =
  HTTPGetAction_Path :: string
  HTTPGetAction_Port :: intstr_IntOrString

record api_ProbeHandler =
  ProbeHandler_HTTPGet :: "api_HTTPGetAction option"

record api_Probe =
  Probe_ProbeHandler :: api_ProbeHandler
  Probe_TimeoutSeconds :: int

datatype api_PullPolicy = PullAlways | PullNever | PullIfNotPresent

datatype api_RestartPolicy = RestartPolicyAlways | RestartPolicyOnFailure | RestartPolicyNever

record api_Container =
  Container_Name :: string
  Container_Image :: string
  Container_Ports :: "api_ContainerPort list"
  Container_Env :: "api_EnvVar list"
  Container_LivenessProbe :: "api_Probe option"
  Container_ImagePullPolicy :: api_PullPolicy

record api_PodSpec =
  PodSpec_Containers :: "api_Container list"
  PodSpec_RestartPolicy :: api_RestartPolicy

record api_PodTemplateSpec =
  PodTemplateSpec_ObjectMeta :: meta_ObjectMeta
  PodTemplateSpec_Spec :: api_PodSpec

record meta_LabelSelector =
  LabelSelector_MatchLabels :: "string \<rightharpoonup> string"

record apps_DeploymentSpec =
  DeploymentSpec_Replicas :: "int option"
  DeploymentSpec_Selector :: "meta_LabelSelector option"
  DeploymentSpec_Template :: api_PodTemplateSpec

record apps_Deployment =
  Deployment_ObjectMeta :: meta_ObjectMeta
  Deployment_Spec :: apps_DeploymentSpec

datatype api_ServiceType =
    ServiceTypeClusterIP
  | ServiceTypeNodePort
  | ServiceTypeLoadBalancer
  | ServiceTypeExternalName

record api_ServicePort =
  ServicePort_Name :: string
  ServicePort_Protocol :: api_Protocol
  ServicePort_Port :: int
  ServicePort_TargetPort :: intstr_IntOrString

record api_ServiceSpec =
  ServiceSpec_Selector :: "string \<rightharpoonup> string"
  ServiceSpec_Type :: api_ServiceType
  ServiceSpec_Ports :: "api_ServicePort list"

record api_Service =
  Service_ObjectMeta :: meta_ObjectMeta
  Service_Spec :: api_ServiceSpec

subsection \<open>The client\<close>

text \<open>
  The requests of the typed clients the operator uses. The clients for deployments and
  services are obtained for one namespace (\<^verbatim>\<open>Deployments(o.namespace)\<close>,
  \<^verbatim>\<open>Services(o.namespace)\<close>), which is the first argument of their requests. A client
  answers a request in a state of the world with an optional error and the next state.
\<close>

datatype call =
    CreateNamespace api_Namespace
  | UpdateNamespace api_Namespace
  | CreateDeployment string apps_Deployment
  | UpdateDeployment string apps_Deployment
  | CreateService string api_Service
  | UpdateService string api_Service

type_synonym 's clientset = "call \<Rightarrow> 's \<Rightarrow> error option \<times> 's"

subsection \<open>Configuration and operator\<close>

record GreetingOperatorConfig =
  Image :: string
  Port :: int
  Namespace :: string
  Replicas :: nat
  Name :: string

record 's GreetingOperator =
  image :: string
  port :: int
  namespace :: string
  replicas :: nat
  name :: string
  client :: "'s clientset"

text \<open>
  \<^verbatim>\<open>NewGreetingOperator\<close> asks for the in-cluster configuration and for a client built
  from it; both can fail. Their results are parameters: \<open>inClusterConfig\<close> is the result
  of \<^verbatim>\<open>rest.InClusterConfig()\<close> and \<open>newForConfig\<close> is \<^verbatim>\<open>kubernetes.NewForConfig\<close>.
\<close>

definition NewGreetingOperator ::
  "error + 'c \<Rightarrow> ('c \<Rightarrow> error + 's clientset) \<Rightarrow> GreetingOperatorConfig
    \<Rightarrow> error + 's GreetingOperator" where
  "NewGreetingOperator inClusterConfig newForConfig config =
     (case inClusterConfig of
        Inl err \<Rightarrow> Inl (Errorf ''in cluster config: '' err)
      | Inr cfg \<Rightarrow>
          (case newForConfig cfg of
             Inl err \<Rightarrow> Inl (Errorf ''new k8s client: '' err)
           | Inr cl \<Rightarrow>
               Inr \<lparr>image = Image config,
                    port = Port config,
                    namespace = Namespace config,
                    replicas = Replicas config,
                    name = Name config,
                    client = cl\<rparr>))"

subsection \<open>createNamespace\<close>

definition greetingNamespace :: "'s GreetingOperator \<Rightarrow> api_Namespace" where
  "greetingNamespace opr =
     \<lparr>Namespace_ObjectMeta =
        \<lparr>ObjectMeta_Name = namespace opr, ObjectMeta_Labels = Map.empty\<rparr>\<rparr>"

definition createNamespace :: "'s GreetingOperator \<Rightarrow> 's \<Rightarrow> error option \<times> 's" where
  "createNamespace opr s =
     (case client opr (CreateNamespace (greetingNamespace opr)) s of
        (Some err, s') \<Rightarrow>
          if \<not> IsAlreadyExists err then (Some (Errorf ''create namespace: '' err), s')
          else (None, s')
      | (None, s') \<Rightarrow> (None, s'))"

subsection \<open>createDeployment\<close>

text \<open>
  The resource of lines 174 to 217: \<open>objMeta\<close> is used for the deployment and for the pod
  template, and the replica count is the local variable \<^verbatim>\<open>var replicas int32 = 1\<close>.
\<close>

definition objMeta :: meta_ObjectMeta where
  "objMeta = \<lparr>ObjectMeta_Name = ''greeting'',
              ObjectMeta_Labels = [''app'' \<mapsto> ''greeting'']\<rparr>"

definition podTpl :: "'s GreetingOperator \<Rightarrow> api_PodTemplateSpec" where
  "podTpl opr =
     \<lparr>PodTemplateSpec_ObjectMeta = objMeta,
      PodTemplateSpec_Spec =
        \<lparr>PodSpec_Containers =
           [\<lparr>Container_Name = ''greeting'',
             Container_Image = image opr,
             Container_Ports =
               [\<lparr>ContainerPort_Name = ''http'',
                 ContainerPort_Protocol = ProtocolTCP,
                 ContainerPort_ContainerPort = 80\<rparr>],
             Container_Env = [\<lparr>EnvVar_Name = ''NAME'', EnvVar_Value = name opr\<rparr>],
             Container_LivenessProbe =
               Some \<lparr>Probe_ProbeHandler =
                       \<lparr>ProbeHandler_HTTPGet =
                          Some \<lparr>HTTPGetAction_Path = ''/health'',
                                HTTPGetAction_Port = FromInt 80\<rparr>\<rparr>,
                     Probe_TimeoutSeconds = 3\<rparr>,
             Container_ImagePullPolicy = PullNever\<rparr>],
         PodSpec_RestartPolicy = RestartPolicyAlways\<rparr>\<rparr>"

definition greetingDeployment :: "'s GreetingOperator \<Rightarrow> apps_Deployment" where
  "greetingDeployment opr =
     (let replicas = (1::int) in
      \<lparr>Deployment_ObjectMeta = objMeta,
       Deployment_Spec =
         \<lparr>DeploymentSpec_Replicas = Some replicas,
          DeploymentSpec_Selector =
            Some \<lparr>LabelSelector_MatchLabels = [''app'' \<mapsto> ''greeting'']\<rparr>,
          DeploymentSpec_Template = podTpl opr\<rparr>\<rparr>)"

definition createDeployment :: "'s GreetingOperator \<Rightarrow> 's \<Rightarrow> error option \<times> 's" where
  "createDeployment opr s =
     (case client opr (CreateDeployment (namespace opr) (greetingDeployment opr)) s of
        (Some err, s') \<Rightarrow>
          if \<not> IsAlreadyExists err then (Some (Errorf ''create deployment: '' err), s')
          else
            (case client opr (UpdateDeployment (namespace opr) (greetingDeployment opr)) s' of
               (Some err', s'') \<Rightarrow> (Some (Errorf ''update deployment: '' err'), s'')
             | (None, s'') \<Rightarrow> (None, s''))
      | (None, s') \<Rightarrow> (None, s'))"

subsection \<open>createService\<close>

definition greetingService :: "'s GreetingOperator \<Rightarrow> api_Service" where
  "greetingService opr =
     \<lparr>Service_ObjectMeta =
        \<lparr>ObjectMeta_Name = ''greeting'', ObjectMeta_Labels = Map.empty\<rparr>,
      Service_Spec =
        \<lparr>ServiceSpec_Selector = [''app'' \<mapsto> ''greeting''],
         ServiceSpec_Type = ServiceTypeLoadBalancer,
         ServiceSpec_Ports =
           [\<lparr>ServicePort_Name = ''http'',
             ServicePort_Protocol = ProtocolTCP,
             ServicePort_Port = 80,
             ServicePort_TargetPort = FromInt (port opr)\<rparr>]\<rparr>\<rparr>"

definition createService :: "'s GreetingOperator \<Rightarrow> 's \<Rightarrow> error option \<times> 's" where
  "createService opr s =
     (case client opr (CreateService (namespace opr) (greetingService opr)) s of
        (Some err, s') \<Rightarrow>
          if \<not> IsAlreadyExists err then (Some (Errorf ''create service: '' err), s')
          else
            (case client opr (UpdateService (namespace opr) (greetingService opr)) s' of
               (Some err', s'') \<Rightarrow> (Some (Errorf ''update service: '' err'), s'')
             | (None, s'') \<Rightarrow> (None, s''))
      | (None, s') \<Rightarrow> (None, s'))"

subsection \<open>Start\<close>

definition Start :: "'s GreetingOperator \<Rightarrow> 's \<Rightarrow> error option \<times> 's" where
  "Start opr s =
     (case createNamespace opr s of
        (Some err, s1) \<Rightarrow> (Some err, s1)
      | (None, s1) \<Rightarrow>
          (case createDeployment opr s1 of
             (Some err, s2) \<Rightarrow> (Some err, s2)
           | (None, s2) \<Rightarrow>
               (case createService opr s2 of
                  (Some err, s3) \<Rightarrow> (Some err, s3)
                | (None, s3) \<Rightarrow> (None, s3))))"

subsection \<open>run\<close>

text \<open>
  The command line context gives the value of a flag by its name, with one method for
  each type of flag (\<^verbatim>\<open>String\<close>, \<^verbatim>\<open>Int\<close>, \<^verbatim>\<open>Uint\<close>). \<^verbatim>\<open>run\<close> reads the
  flags image, namespace, replicas and name; the composite literal has no \<^verbatim>\<open>Port\<close>
  field, which is therefore Go's zero value.
\<close>

record cli_Context =
  Context_String :: "string \<Rightarrow> string"
  Context_Int :: "string \<Rightarrow> int"
  Context_Uint :: "string \<Rightarrow> nat"

definition run_config :: "cli_Context \<Rightarrow> GreetingOperatorConfig" where
  "run_config cliCtx =
     \<lparr>Image = Context_String cliCtx ''image'',
      Port = 0,
      Namespace = Context_String cliCtx ''namespace'',
      Replicas = Context_Uint cliCtx ''replicas'',
      Name = Context_String cliCtx ''name''\<rparr>"

definition run ::
  "error + 'c \<Rightarrow> ('c \<Rightarrow> error + 's clientset) \<Rightarrow> cli_Context \<Rightarrow> 's \<Rightarrow> error option \<times> 's" where
  "run inClusterConfig newForConfig cliCtx s =
     (let config = run_config cliCtx in
      case NewGreetingOperator inClusterConfig newForConfig config of
        Inl err \<Rightarrow> (Some (Errorf ''creating operator: '' err), s)
      | Inr operator \<Rightarrow>
          (case Start operator s of
             (Some err, s') \<Rightarrow> (Some (Errorf ''start operator: '' err), s')
           | (None, s') \<Rightarrow> (None, s')))"

subsection \<open>Observing the requests\<close>

text \<open>
  A client that records the requests it receives, in order, next to the state of the
  client it wraps; \<open>traced\<close> is the same operator on the recording client.
\<close>

definition recording :: "'s clientset \<Rightarrow> ('s \<times> call list) clientset" where
  "recording api c st =
     (case api c (fst st) of (r, s') \<Rightarrow> (r, (s', snd st @ [c])))"

definition traced :: "'s GreetingOperator \<Rightarrow> ('s \<times> call list) GreetingOperator" where
  "traced opr =
     \<lparr>image = image opr,
      port = port opr,
      namespace = namespace opr,
      replicas = replicas opr,
      name = name opr,
      client = recording (client opr)\<rparr>"

fun is_namespace_call :: "call \<Rightarrow> bool" where
  "is_namespace_call (CreateNamespace n) = True"
| "is_namespace_call (UpdateNamespace n) = True"
| "is_namespace_call c = False"

fun is_deployment_call :: "call \<Rightarrow> bool" where
  "is_deployment_call (CreateDeployment ns d) = True"
| "is_deployment_call (UpdateDeployment ns d) = True"
| "is_deployment_call c = False"

fun is_service_call :: "call \<Rightarrow> bool" where
  "is_service_call (CreateService ns v) = True"
| "is_service_call (UpdateService ns v) = True"
| "is_service_call c = False"

fun is_update_call :: "call \<Rightarrow> bool" where
  "is_update_call (UpdateNamespace n) = True"
| "is_update_call (UpdateDeployment ns d) = True"
| "is_update_call (UpdateService ns v) = True"
| "is_update_call c = False"

fun submitted_deployments :: "call list \<Rightarrow> (string \<times> apps_Deployment) list" where
  "submitted_deployments [] = []"
| "submitted_deployments (CreateDeployment ns d # cs) = (ns, d) # submitted_deployments cs"
| "submitted_deployments (UpdateDeployment ns d # cs) = (ns, d) # submitted_deployments cs"
| "submitted_deployments (c # cs) = submitted_deployments cs"

fun submitted_services :: "call list \<Rightarrow> (string \<times> api_Service) list" where
  "submitted_services [] = []"
| "submitted_services (CreateService ns v # cs) = (ns, v) # submitted_services cs"
| "submitted_services (UpdateService ns v # cs) = (ns, v) # submitted_services cs"
| "submitted_services (c # cs) = submitted_services cs"

subsection \<open>Clients to run the operator against\<close>

text \<open>
  The cluster is outside the program. Four clients stand for it where a statement needs
  one: a client that cannot reach the cluster, a client whose create call for the
  deployment always reports that the deployment exists, a client whose create call for the
  deployment is always rejected, and a cluster kept in memory.

  The cluster in memory holds the resources by name (deployments and services by
  namespace and name). A create call on a name that is present reports
  \<open>StatusReasonAlreadyExists\<close> and changes nothing; otherwise it stores the resource. An
  update call replaces the resource stored under the name, and reports
  \<open>StatusReasonNotFound\<close> when there is none. Deployments and services are created only
  in a namespace that is present. The resources the operator builds carry no resource
  version, so an update is unconditional; the cluster neither validates nor fills in
  defaults.
\<close>

definition unreachable :: "'s clientset" where
  "unreachable c s = (Some (ErrorString ''connection refused''), s)"

fun deploymentExists :: "'s clientset" where
  "deploymentExists (CreateDeployment ns d) s = (Some (StatusError StatusReasonAlreadyExists), s)"
| "deploymentExists c s = (None, s)"

fun deploymentRejected :: "'s clientset" where
  "deploymentRejected (CreateDeployment ns d) s = (Some (StatusError StatusReasonInvalid), s)"
| "deploymentRejected c s = (None, s)"

record cluster =
  namespaces :: "string \<rightharpoonup> api_Namespace"
  deployments :: "string \<times> string \<rightharpoonup> apps_Deployment"
  services :: "string \<times> string \<rightharpoonup> api_Service"

definition emptyCluster :: cluster where
  "emptyCluster = \<lparr>namespaces = Map.empty, deployments = Map.empty, services = Map.empty\<rparr>"

fun clusterAPI :: "cluster clientset" where
  "clusterAPI (CreateNamespace n) s =
     (let k = ObjectMeta_Name (Namespace_ObjectMeta n) in
      case namespaces s k of
        Some old \<Rightarrow> (Some (StatusError StatusReasonAlreadyExists), s)
      | None \<Rightarrow> (None, s\<lparr>namespaces := (namespaces s)(k \<mapsto> n)\<rparr>))"
| "clusterAPI (UpdateNamespace n) s =
     (let k = ObjectMeta_Name (Namespace_ObjectMeta n) in
      case namespaces s k of
        Some old \<Rightarrow> (None, s\<lparr>namespaces := (namespaces s)(k \<mapsto> n)\<rparr>)
      | None \<Rightarrow> (Some (StatusError StatusReasonNotFound), s))"
| "clusterAPI (CreateDeployment ns d) s =
     (let k = (ns, ObjectMeta_Name (Deployment_ObjectMeta d)) in
      case namespaces s ns of
        None \<Rightarrow> (Some (StatusError StatusReasonNotFound), s)
      | Some n \<Rightarrow>
          (case deployments s k of
             Some old \<Rightarrow> (Some (StatusError StatusReasonAlreadyExists), s)
           | None \<Rightarrow> (None, s\<lparr>deployments := (deployments s)(k \<mapsto> d)\<rparr>)))"
| "clusterAPI (UpdateDeployment ns d) s =
     (let k = (ns, ObjectMeta_Name (Deployment_ObjectMeta d)) in
      case deployments s k of
        Some old \<Rightarrow> (None, s\<lparr>deployments := (deployments s)(k \<mapsto> d)\<rparr>)
      | None \<Rightarrow> (Some (StatusError StatusReasonNotFound), s))"
| "clusterAPI (CreateService ns v) s =
     (let k = (ns, ObjectMeta_Name (Service_ObjectMeta v)) in
      case namespaces s ns of
        None \<Rightarrow> (Some (StatusError StatusReasonNotFound), s)
      | Some n \<Rightarrow>
          (case services s k of
             Some old \<Rightarrow> (Some (StatusError StatusReasonAlreadyExists), s)
           | None \<Rightarrow> (None, s\<lparr>services := (services s)(k \<mapsto> v)\<rparr>)))"
| "clusterAPI (UpdateService ns v) s =
     (let k = (ns, ObjectMeta_Name (Service_ObjectMeta v)) in
      case services s k of
        Some old \<Rightarrow> (None, s\<lparr>services := (services s)(k \<mapsto> v)\<rparr>)
      | None \<Rightarrow> (Some (StatusError StatusReasonNotFound), s))"

text \<open>
  The configuration of the scenario, the scenario with a port one above the largest
  \<^verbatim>\<open>int32\<close>, the scenario as command line flags with another port, and the operator
  made from a configuration and a client once the connection to the cluster is set up.
\<close>

definition scenarioConfig :: GreetingOperatorConfig where
  "scenarioConfig =
     \<lparr>Image = ''greeting:latest'',
      Port = 80,
      Namespace = ''default'',
      Replicas = 1,
      Name = ''Foo Bar''\<rparr>"

definition overflowConfig :: GreetingOperatorConfig where
  "overflowConfig =
     \<lparr>Image = ''greeting:latest'',
      Port = 2147483648,
      Namespace = ''default'',
      Replicas = 1,
      Name = ''Foo Bar''\<rparr>"

definition scenarioFlags :: cli_Context where
  "scenarioFlags =
     \<lparr>Context_String = (\<lambda>flag. if flag = ''image'' then ''greeting:latest''
                       else if flag = ''namespace'' then ''default''
                       else if flag = ''name'' then ''Foo Bar''
                       else []),
      Context_Int = (\<lambda>flag. if flag = ''port'' then 8080 else 0),
      Context_Uint = (\<lambda>flag. if flag = ''replicas'' then 1 else 0)\<rparr>"

definition operatorOn :: "'s clientset \<Rightarrow> GreetingOperatorConfig \<Rightarrow> 's GreetingOperator" where
  "operatorOn cl config =
     \<lparr>image = Image config,
      port = Port config,
      namespace = Namespace config,
      replicas = Replicas config,
      name = Name config,
      client = cl\<rparr>"

declare clusterAPI.simps [simp del]

section \<open>Properties\<close>

subsection \<open>What the recording client sees\<close>

text \<open>
  Each method of the operator, run on the recording client, returns what it returns on the
  client itself and appends its requests to the record: one create request, followed by
  one update request exactly when the create request was answered with an error for which
  \<open>IsAlreadyExists\<close> holds.
\<close>

lemma createNamespace_traced:
  "createNamespace (traced opr) (s, tr) =
     (case createNamespace opr s of
        (r, s') \<Rightarrow> (r, (s', tr @ [CreateNamespace (greetingNamespace opr)])))"
  by (simp add: createNamespace_def traced_def recording_def greetingNamespace_def
        split: prod.splits option.splits)

lemma greetingDeployment_traced: "greetingDeployment (traced opr) = greetingDeployment opr"
  by (simp add: greetingDeployment_def podTpl_def traced_def)

lemma greetingService_traced: "greetingService (traced opr) = greetingService opr"
  by (simp add: greetingService_def traced_def)

lemma createDeployment_traced:
  "createDeployment (traced opr) (s, tr) =
     (case createDeployment opr s of
        (r, s') \<Rightarrow>
          (r, (s', tr @ CreateDeployment (namespace opr) (greetingDeployment opr) #
                 (case fst (client opr (CreateDeployment (namespace opr) (greetingDeployment opr)) s) of
                    None \<Rightarrow> []
                  | Some err \<Rightarrow>
                      if IsAlreadyExists err
                      then [UpdateDeployment (namespace opr) (greetingDeployment opr)]
                      else []))))"
  unfolding createDeployment_def greetingDeployment_traced
  by (simp add: traced_def recording_def split: prod.splits option.splits)

lemma createService_traced:
  "createService (traced opr) (s, tr) =
     (case createService opr s of
        (r, s') \<Rightarrow>
          (r, (s', tr @ CreateService (namespace opr) (greetingService opr) #
                 (case fst (client opr (CreateService (namespace opr) (greetingService opr)) s) of
                    None \<Rightarrow> []
                  | Some err \<Rightarrow>
                      if IsAlreadyExists err
                      then [UpdateService (namespace opr) (greetingService opr)]
                      else []))))"
  unfolding createService_def greetingService_traced
  by (simp add: traced_def recording_def split: prod.splits option.splits)

lemma Start_traced:
  "Start (traced opr) (s, tr) =
     (case createNamespace (traced opr) (s, tr) of
        (Some err, st1) \<Rightarrow> (Some err, st1)
      | (None, st1) \<Rightarrow>
          (case createDeployment (traced opr) st1 of
             (Some err, st2) \<Rightarrow> (Some err, st2)
           | (None, st2) \<Rightarrow> createService (traced opr) st2))"
  by (simp add: Start_def split: prod.splits option.splits)

lemma createDeployment_submitted:
  assumes "createDeployment (traced opr) (s, []) = (r, (s', tr))"
  shows "submitted_deployments tr \<noteq> []"
    and "set (submitted_deployments tr) = {(namespace opr, greetingDeployment opr)}"
  using assms unfolding createDeployment_traced
  by (auto split: prod.splits option.splits if_splits)

lemma createService_submitted:
  assumes "createService (traced opr) (s, []) = (r, (s', tr))"
  shows "submitted_services tr \<noteq> []"
    and "set (submitted_services tr) = {(namespace opr, greetingService opr)}"
  using assms unfolding createService_traced
  by (auto split: prod.splits option.splits if_splits)

lemma Start_submitted_services:
  assumes "Start (traced opr) (s, []) = (r, (s', tr))"
  shows "set (submitted_services tr) \<subseteq> {(namespace opr, greetingService opr)}"
  using assms unfolding Start_traced createNamespace_traced
  by (cases "createNamespace opr s";
      cases "createDeployment opr (snd (createNamespace opr s))";
      cases "createService opr (snd (createDeployment opr (snd (createNamespace opr s))))")
     (auto simp: createDeployment_traced createService_traced
           split: option.splits prod.splits if_splits)

subsection \<open>Constructing the operator\<close>

lemma NewGreetingOperator_Inr:
  assumes "NewGreetingOperator inClusterConfig newForConfig config = Inr opr"
  shows "image opr = Image config" and "port opr = Port config"
    and "namespace opr = Namespace config" and "replicas opr = Replicas config"
    and "name opr = Name config"
  using assms by (auto simp: NewGreetingOperator_def split: sum.splits)

lemma NewGreetingOperator_operatorOn:
  "NewGreetingOperator (Inr cfg) (\<lambda>c. Inr cl) config = Inr (operatorOn cl config)"
  by (simp add: NewGreetingOperator_def operatorOn_def)

lemma NewGreetingOperator_recording:
  "NewGreetingOperator inClusterConfig (\<lambda>c. map_sum id recording (newForConfig c)) config
     = map_sum id traced (NewGreetingOperator inClusterConfig newForConfig config)"
  by (simp add: NewGreetingOperator_def traced_def split: sum.splits)

subsection \<open>The operator on the cluster in memory\<close>

lemma createNamespace_cluster:
  assumes "client opr = clusterAPI"
  shows "createNamespace opr s =
           (None, case namespaces s (namespace opr) of
                    Some old \<Rightarrow> s
                  | None \<Rightarrow> s\<lparr>namespaces := (namespaces s)(namespace opr \<mapsto> greetingNamespace opr)\<rparr>)"
  using assms by (simp add: createNamespace_def greetingNamespace_def clusterAPI.simps Let_def split: option.splits)

lemma createDeployment_cluster:
  assumes "client opr = clusterAPI" and "namespaces s (namespace opr) \<noteq> None"
  shows "createDeployment opr s =
           (None, s\<lparr>deployments :=
                      (deployments s)((namespace opr, ''greeting'') \<mapsto> greetingDeployment opr)\<rparr>)"
proof -
  have n: "ObjectMeta_Name (Deployment_ObjectMeta (greetingDeployment opr)) = ''greeting''"
    by (simp add: greetingDeployment_def objMeta_def)
  show ?thesis
    using assms unfolding createDeployment_def
    by (cases "deployments s (namespace opr, ''greeting'')") (auto simp: n clusterAPI.simps Let_def)
qed

lemma createService_cluster:
  assumes "client opr = clusterAPI" and "namespaces s (namespace opr) \<noteq> None"
  shows "createService opr s =
           (None, s\<lparr>services :=
                      (services s)((namespace opr, ''greeting'') \<mapsto> greetingService opr)\<rparr>)"
proof -
  have n: "ObjectMeta_Name (Service_ObjectMeta (greetingService opr)) = ''greeting''"
    by (simp add: greetingService_def)
  show ?thesis
    using assms unfolding createService_def
    by (cases "services s (namespace opr, ''greeting'')") (auto simp: n clusterAPI.simps Let_def)
qed

lemma Start_cluster:
  assumes "client opr = clusterAPI"
  shows "Start opr s =
           (None, \<lparr>namespaces = (case namespaces s (namespace opr) of
                                   Some old \<Rightarrow> namespaces s
                                 | None \<Rightarrow> (namespaces s)(namespace opr \<mapsto> greetingNamespace opr)),
                   deployments = (deployments s)((namespace opr, ''greeting'') \<mapsto> greetingDeployment opr),
                   services = (services s)((namespace opr, ''greeting'') \<mapsto> greetingService opr)\<rparr>)"
proof -
  define s1 where "s1 = snd (createNamespace opr s)"
  have s1: "createNamespace opr s = (None, s1)"
    unfolding s1_def by (simp add: createNamespace_cluster [OF assms])
  have e1: "namespaces s1 = (case namespaces s (namespace opr) of
                               Some old \<Rightarrow> namespaces s
                             | None \<Rightarrow> (namespaces s)(namespace opr \<mapsto> greetingNamespace opr))"
      "deployments s1 = deployments s" "services s1 = services s"
    unfolding s1_def by (simp_all add: createNamespace_cluster [OF assms] split: option.splits)
  have n1: "namespaces s1 (namespace opr) \<noteq> None"
    unfolding e1 by (simp split: option.splits)
  let ?s2 = "s1\<lparr>deployments :=
                      (deployments s1)((namespace opr, ''greeting'') \<mapsto> greetingDeployment opr)\<rparr>"
  have s2: "createDeployment opr s1 = (None, ?s2)"
    by (rule createDeployment_cluster [OF assms n1])
  have n2: "namespaces ?s2 (namespace opr) \<noteq> None" using n1 by simp
  have s3: "createService opr ?s2 =
              (None, ?s2\<lparr>services :=
                      (services ?s2)((namespace opr, ''greeting'') \<mapsto> greetingService opr)\<rparr>)"
    by (rule createService_cluster [OF assms n2])
  have "Start opr s =
          (None, ?s2\<lparr>services :=
                      (services ?s2)((namespace opr, ''greeting'') \<mapsto> greetingService opr)\<rparr>)"
    by (simp add: Start_def s1 s2 s3)
  then show ?thesis
    using e1 by simp
qed

lemma createDeployment_traced_cluster:
  assumes "client opr = clusterAPI" and "namespaces s (namespace opr) \<noteq> None"
  shows "createDeployment (traced opr) (s, tr) =
           (None, (s\<lparr>deployments :=
                      (deployments s)((namespace opr, ''greeting'') \<mapsto> greetingDeployment opr)\<rparr>,
                   tr @ CreateDeployment (namespace opr) (greetingDeployment opr) #
                     (case deployments s (namespace opr, ''greeting'') of
                        None \<Rightarrow> []
                      | Some old \<Rightarrow> [UpdateDeployment (namespace opr) (greetingDeployment opr)])))"
proof -
  have n: "ObjectMeta_Name (Deployment_ObjectMeta (greetingDeployment opr)) = ''greeting''"
    by (simp add: greetingDeployment_def objMeta_def)
  show ?thesis
    unfolding createDeployment_traced createDeployment_cluster [OF assms]
    using assms
    by (cases "deployments s (namespace opr, ''greeting'')")
       (auto simp: n clusterAPI.simps Let_def)
qed

lemma createService_traced_cluster:
  assumes "client opr = clusterAPI" and "namespaces s (namespace opr) \<noteq> None"
  shows "createService (traced opr) (s, tr) =
           (None, (s\<lparr>services :=
                      (services s)((namespace opr, ''greeting'') \<mapsto> greetingService opr)\<rparr>,
                   tr @ CreateService (namespace opr) (greetingService opr) #
                     (case services s (namespace opr, ''greeting'') of
                        None \<Rightarrow> []
                      | Some old \<Rightarrow> [UpdateService (namespace opr) (greetingService opr)])))"
proof -
  have n: "ObjectMeta_Name (Service_ObjectMeta (greetingService opr)) = ''greeting''"
    by (simp add: greetingService_def)
  show ?thesis
    unfolding createService_traced createService_cluster [OF assms]
    using assms
    by (cases "services s (namespace opr, ''greeting'')")
       (auto simp: n clusterAPI.simps Let_def)
qed

lemma Start_traced_cluster:
  assumes "client opr = clusterAPI"
  shows "Start (traced opr) (s, tr) =
           (None, (snd (Start opr s),
                   tr @ CreateNamespace (greetingNamespace opr) #
                     CreateDeployment (namespace opr) (greetingDeployment opr) #
                     (case deployments s (namespace opr, ''greeting'') of
                        None \<Rightarrow> []
                      | Some old \<Rightarrow> [UpdateDeployment (namespace opr) (greetingDeployment opr)]) @
                     CreateService (namespace opr) (greetingService opr) #
                     (case services s (namespace opr, ''greeting'') of
                        None \<Rightarrow> []
                      | Some old \<Rightarrow> [UpdateService (namespace opr) (greetingService opr)])))"
proof -
  define s1 where "s1 = snd (createNamespace opr s)"
  have s1: "createNamespace opr s = (None, s1)"
    unfolding s1_def by (simp add: createNamespace_cluster [OF assms])
  have e1: "deployments s1 = deployments s" "services s1 = services s"
    and n1: "namespaces s1 (namespace opr) \<noteq> None"
    unfolding s1_def by (simp_all add: createNamespace_cluster [OF assms] split: option.splits)
  show ?thesis
    unfolding Start_traced createNamespace_traced
    by (simp add: Start_def s1 n1 e1
          createDeployment_cluster [OF assms] createService_cluster [OF assms]
          createDeployment_traced_cluster [OF assms] createService_traced_cluster [OF assms])
qed

subsection \<open>Replica count\<close>

lemma greetingDeployment_replicas:
  "DeploymentSpec_Replicas (Deployment_Spec (greetingDeployment opr)) = Some 1"
  "greetingDeployment (opr\<lparr>replicas := n\<rparr>) = greetingDeployment opr"
  by (simp_all add: greetingDeployment_def podTpl_def)

text \<open>
  C1. The claim: the deployment that \<open>createDeployment\<close> builds and submits has the replica
  count of the configuration, so that a second run with three replicas against a cluster
  that holds the deployment of a first run updates the replica count to three.

  The source never reads \<open>replicas\<close>: the replica count of the resource is the local
  variable initialised to 1 (\<open>greetingDeployment_replicas\<close>). Evaluated on the scenario: after a first run on the empty
  cluster, the run of an operator configured with three replicas succeeds, and both
  requests it makes for the deployment (create, then update) carry the replica count 1;
  the deployment the cluster holds afterwards has replica count 1.
\<close>

theorem createDeployment_replicas_fixed:
  "let prior = snd (Start (operatorOn clusterAPI scenarioConfig) emptyCluster);
       opr = operatorOn clusterAPI (scenarioConfig\<lparr>Replicas := 3\<rparr>);
       rerun = Start (traced opr) (prior, [])
   in replicas opr = 3
    \<and> fst rerun = None
    \<and> map (\<lambda>(ns, d). DeploymentSpec_Replicas (Deployment_Spec d))
        (submitted_deployments (snd (snd rerun))) = [Some 1, Some 1]
    \<and> map_option (\<lambda>d. DeploymentSpec_Replicas (Deployment_Spec d))
        (deployments (fst (snd rerun)) (''default'', ''greeting'')) = Some (Some 1)"
  by (simp add: Start_traced createNamespace_traced createDeployment_traced createService_traced
        Start_cluster createNamespace_cluster createDeployment_cluster createService_cluster
        operatorOn_def scenarioConfig_def emptyCluster_def greetingDeployment_def objMeta_def
        clusterAPI.simps Let_def)

subsection \<open>Falling back to an update\<close>

text \<open>
  C2. The claim: when the create call for the deployment reports that it already exists,
  \<open>createDeployment\<close> makes exactly one update call, whose resource matches the
  configuration in replica count, image and container port.

  Evaluated on an operator configured with three replicas, against the client whose create
  call for the deployment always reports that it exists: the requests are one create and
  one update, both with the resource \<open>greetingDeployment\<close> builds, and that resource has
  replica count 1. (That the update follows exactly when the create call reports an
  existing resource, and carries the resource of the create call, is
  \<open>createDeployment_traced\<close>.)
\<close>

theorem createDeployment_update_replicas:
  "let opr = operatorOn deploymentExists (scenarioConfig\<lparr>Replicas := 3\<rparr>);
       d = greetingDeployment opr
   in replicas opr = 3
    \<and> createDeployment (traced opr) ((), [])
        = (None, ((), [CreateDeployment ''default'' d, UpdateDeployment ''default'' d]))
    \<and> DeploymentSpec_Replicas (Deployment_Spec d) = Some 1"
  unfolding Let_def createDeployment_traced
  by (simp add: createDeployment_def operatorOn_def scenarioConfig_def greetingDeployment_def)

subsection \<open>Order of the three operations\<close>

text \<open>
  C3. \<open>Start\<close> runs the operations for the namespace, the deployment and the service in
  this order and returns the first error: the requests it makes are the namespace request,
  then the deployment requests, then the service requests; when \<open>createNamespace\<close> returns
  an error, \<open>Start\<close> returns that error and has made the namespace request only; when
  \<open>createDeployment\<close> returns an error, \<open>Start\<close> returns that error and has made no service
  request; otherwise it returns what \<open>createService\<close> returns.
\<close>

theorem Start_order:
  assumes "Start (traced opr) (s, []) = (r, (s', tr))"
  shows "tr = filter is_namespace_call tr @ filter is_deployment_call tr @ filter is_service_call tr
       \<and> filter is_namespace_call tr = [CreateNamespace (greetingNamespace opr)]
       \<and> (\<forall>err. fst (createNamespace opr s) = Some err \<longrightarrow>
            r = Some err \<and> tr = [CreateNamespace (greetingNamespace opr)]
              \<and> filter is_deployment_call tr = [] \<and> filter is_service_call tr = [])
       \<and> (\<forall>err. fst (createNamespace opr s) = None
              \<and> fst (createDeployment opr (snd (createNamespace opr s))) = Some err \<longrightarrow>
            r = Some err \<and> filter is_service_call tr = [])
       \<and> (fst (createNamespace opr s) = None
              \<and> fst (createDeployment opr (snd (createNamespace opr s))) = None \<longrightarrow>
            r = fst (createService opr (snd (createDeployment opr (snd (createNamespace opr s)))))
              \<and> filter is_deployment_call tr \<noteq> [] \<and> filter is_service_call tr \<noteq> [])"
  using assms
  unfolding Start_traced createNamespace_traced
  by (cases "createNamespace opr s";
      cases "createDeployment opr (snd (createNamespace opr s))";
      cases "createService opr (snd (createDeployment opr (snd (createNamespace opr s))))")
     (auto simp: createDeployment_traced createService_traced
           split: option.splits prod.splits if_splits)

theorem Start_order_witness:
  "(let opr = operatorOn unreachable scenarioConfig;
        err = Errorf ''create namespace: '' (ErrorString ''connection refused'')
    in Start (traced opr) ((), []) = (Some err, ((), [CreateNamespace (greetingNamespace opr)]))
     \<and> fst (createNamespace opr ()) = Some err)
 \<and> (let opr = operatorOn deploymentRejected scenarioConfig;
        err = Errorf ''create deployment: '' (StatusError StatusReasonInvalid);
        tr = [CreateNamespace (greetingNamespace opr),
              CreateDeployment ''default'' (greetingDeployment opr)]
    in Start (traced opr) ((), []) = (Some err, ((), tr))
     \<and> fst (createNamespace opr ()) = None
     \<and> fst (createDeployment opr (snd (createNamespace opr ()))) = Some err
     \<and> filter is_service_call tr = [])
 \<and> (let opr = operatorOn clusterAPI scenarioConfig;
        tr = [CreateNamespace (greetingNamespace opr),
              CreateDeployment ''default'' (greetingDeployment opr),
              CreateService ''default'' (greetingService opr)]
    in Start (traced opr) (emptyCluster, []) = (None, (snd (Start opr emptyCluster), tr))
     \<and> tr = filter is_namespace_call tr @ filter is_deployment_call tr
               @ filter is_service_call tr)"
proof -
  let ?u = "operatorOn unreachable scenarioConfig :: unit GreetingOperator"
  let ?d = "operatorOn deploymentRejected scenarioConfig :: unit GreetingOperator"
  let ?c = "operatorOn clusterAPI scenarioConfig"
  have fu: "client ?u = unreachable" "client ?d = deploymentRejected" "client ?c = clusterAPI"
    "namespace ?d = ''default''" "namespace ?c = ''default''"
    by (simp_all add: operatorOn_def scenarioConfig_def)
  have nu: "createNamespace ?u ()
              = (Some (Errorf ''create namespace: '' (ErrorString ''connection refused'')), ())"
    by (simp add: createNamespace_def fu unreachable_def)
  have u: "Start (traced ?u) ((), [])
             = (Some (Errorf ''create namespace: '' (ErrorString ''connection refused'')),
                ((), [CreateNamespace (greetingNamespace ?u)]))"
    unfolding Start_traced createNamespace_traced by (simp add: nu)
  have nd: "createNamespace ?d () = (None, ())"
    by (simp add: createNamespace_def fu)
  have dd: "createDeployment ?d ()
              = (Some (Errorf ''create deployment: '' (StatusError StatusReasonInvalid)), ())"
    by (simp add: createDeployment_def fu)
  have d: "Start (traced ?d) ((), [])
             = (Some (Errorf ''create deployment: '' (StatusError StatusReasonInvalid)),
                ((), [CreateNamespace (greetingNamespace ?d),
                      CreateDeployment ''default'' (greetingDeployment ?d)]))"
    unfolding Start_traced createNamespace_traced
    by (simp add: nd dd createDeployment_traced fu)
  have nc: "createNamespace ?c emptyCluster
              = (None, emptyCluster\<lparr>namespaces := [''default'' \<mapsto> greetingNamespace ?c]\<rparr>)"
    by (simp add: createNamespace_cluster fu emptyCluster_def)
  let ?s1 = "emptyCluster\<lparr>namespaces := [''default'' \<mapsto> greetingNamespace ?c]\<rparr>"
  have dc: "createDeployment ?c ?s1
              = (None, ?s1\<lparr>deployments := [(''default'', ''greeting'') \<mapsto> greetingDeployment ?c]\<rparr>)"
    by (simp add: createDeployment_cluster fu emptyCluster_def)
  let ?s2 = "?s1\<lparr>deployments := [(''default'', ''greeting'') \<mapsto> greetingDeployment ?c]\<rparr>"
  have sc: "createService ?c ?s2
              = (None, ?s2\<lparr>services := [(''default'', ''greeting'') \<mapsto> greetingService ?c]\<rparr>)"
    by (simp add: createService_cluster fu emptyCluster_def)
  have rc: "fst (clusterAPI (CreateDeployment ''default'' (greetingDeployment ?c)) ?s1) = None"
    "fst (clusterAPI (CreateService ''default'' (greetingService ?c)) ?s2) = None"
    by (simp_all add: emptyCluster_def clusterAPI.simps Let_def)
  have c: "Start (traced ?c) (emptyCluster, [])
             = (None, (snd (Start ?c emptyCluster),
                  [CreateNamespace (greetingNamespace ?c),
                   CreateDeployment ''default'' (greetingDeployment ?c),
                   CreateService ''default'' (greetingService ?c)]))"
    unfolding Start_traced createNamespace_traced
    by (simp add: nc dc sc rc createDeployment_traced createService_traced fu Start_def)
  show ?thesis
    using Start_order [OF u] Start_order [OF d] Start_order [OF c] u d c
    unfolding Let_def
    by (simp add: nu nd dd)
qed

subsection \<open>Running twice\<close>

text \<open>
  C4. On the cluster in memory, starting from any state of it, \<open>Start\<close> succeeds, a second
  \<open>Start\<close> with the same configuration on the resulting cluster succeeds as well and
  leaves the cluster as the first run left it: the namespace is present, and the
  deployment and the service named greeting in it are the ones built from the
  configuration. From the empty cluster these three resources are all the cluster holds.
\<close>

theorem Start_idempotent:
  "let opr = operatorOn clusterAPI config;
       once = Start opr s;
       twice = Start opr (snd once)
   in fst once = None \<and> fst twice = None \<and> snd twice = snd once
    \<and> namespaces (snd once) (Namespace config) \<noteq> None
    \<and> deployments (snd once) (Namespace config, ''greeting'') = Some (greetingDeployment opr)
    \<and> services (snd once) (Namespace config, ''greeting'') = Some (greetingService opr)
    \<and> snd (Start opr emptyCluster)
        = \<lparr>namespaces = [Namespace config \<mapsto> greetingNamespace opr],
           deployments = [(Namespace config, ''greeting'') \<mapsto> greetingDeployment opr],
           services = [(Namespace config, ''greeting'') \<mapsto> greetingService opr]\<rparr>"
proof -
  have c: "client (operatorOn clusterAPI config) = clusterAPI"
    and n: "namespace (operatorOn clusterAPI config) = Namespace config"
    by (simp_all add: operatorOn_def)
  show ?thesis
    unfolding Let_def Start_cluster [OF c] n
    by (cases "namespaces s (Namespace config)") (simp_all add: emptyCluster_def)
qed

subsection \<open>The service\<close>

lemma int32_in_range:
  assumes "- 2147483648 \<le> val" and "val < 2147483648"
  shows "int32 val = val"
  using assms by (simp add: int32_def)

lemma port_update:
  "createNamespace (opr\<lparr>port := p\<rparr>) st = createNamespace opr st"
  "createDeployment (opr\<lparr>port := p\<rparr>) st = createDeployment opr st"
  by (simp_all add: createNamespace_def createDeployment_def greetingNamespace_def
        greetingDeployment_def podTpl_def split: prod.splits option.splits)

lemma traced_port_update: "traced (opr\<lparr>port := p\<rparr>) = (traced opr)\<lparr>port := p\<rparr>"
  by (simp add: traced_def)

lemma port_update_traced:
  "createNamespace (traced (opr\<lparr>port := p\<rparr>)) st = createNamespace (traced opr) st"
  "createDeployment (traced (opr\<lparr>port := p\<rparr>)) st = createDeployment (traced opr) st"
  unfolding traced_port_update by (rule port_update)+

text \<open>
  C5, as amended. For an operator constructed from a configuration, every service that
  \<open>createService\<close> submits (there is at least one) is submitted in the namespace of the
  configuration, is named greeting, selects the label app = greeting, has type load
  balancer and has the single port http, from port 80 to the target port that
  \<^verbatim>\<open>intstr.FromInt\<close> makes of the port of the configuration: the port converted to
  \<^verbatim>\<open>int32\<close>. The target port is the port of the configuration whenever that port lies in
  the range of \<^verbatim>\<open>int32\<close>, as the port 80 of the scenario does.
\<close>

theorem createService_resource:
  assumes "NewGreetingOperator inClusterConfig newForConfig config = Inr opr"
      and "createService (traced opr) (s, []) = (r, (s', tr))"
  shows "submitted_services tr \<noteq> []
       \<and> (\<forall>(ns, v) \<in> set (submitted_services tr).
            ns = Namespace config
          \<and> ObjectMeta_Name (Service_ObjectMeta v) = ''greeting''
          \<and> ServiceSpec_Selector (Service_Spec v) = [''app'' \<mapsto> ''greeting'']
          \<and> ServiceSpec_Type (Service_Spec v) = ServiceTypeLoadBalancer
          \<and> ServiceSpec_Ports (Service_Spec v)
              = [\<lparr>ServicePort_Name = ''http'',
                  ServicePort_Protocol = ProtocolTCP,
                  ServicePort_Port = 80,
                  ServicePort_TargetPort =
                    \<lparr>IntOrString_Type = intstr_Int,
                     IntOrString_IntVal = int32 (Port config),
                     IntOrString_StrVal = []\<rparr>\<rparr>]
          \<and> (- 2147483648 \<le> Port config \<and> Port config < 2147483648 \<longrightarrow>
               map (\<lambda>sp. IntOrString_IntVal (ServicePort_TargetPort sp))
                 (ServiceSpec_Ports (Service_Spec v)) = [Port config]))"
  using createService_submitted [OF assms(2)] NewGreetingOperator_Inr [OF assms(1)]
  by (simp add: greetingService_def FromInt_def int32_in_range)

theorem createService_resource_witness:
  "let opr = operatorOn clusterAPI scenarioConfig;
       v = greetingService opr;
       s = emptyCluster\<lparr>namespaces := [''default'' \<mapsto> greetingNamespace opr]\<rparr>
   in NewGreetingOperator (Inr ()) (\<lambda>cfg. Inr clusterAPI) scenarioConfig = Inr opr
    \<and> Port scenarioConfig = 80
    \<and> - 2147483648 \<le> Port scenarioConfig \<and> Port scenarioConfig < 2147483648
    \<and> createService (traced opr) (s, [])
        = (None, (s\<lparr>services := [(''default'', ''greeting'') \<mapsto> v]\<rparr>,
                  [CreateService ''default'' v]))
    \<and> ObjectMeta_Name (Service_ObjectMeta v) = ''greeting''
    \<and> ServiceSpec_Type (Service_Spec v) = ServiceTypeLoadBalancer
    \<and> ServiceSpec_Selector (Service_Spec v) = [''app'' \<mapsto> ''greeting'']
    \<and> ServiceSpec_Ports (Service_Spec v)
        = [\<lparr>ServicePort_Name = ''http'',
            ServicePort_Protocol = ProtocolTCP,
            ServicePort_Port = 80,
            ServicePort_TargetPort =
              \<lparr>IntOrString_Type = intstr_Int,
               IntOrString_IntVal = 80,
               IntOrString_StrVal = []\<rparr>\<rparr>]"
proof -
  let ?o = "operatorOn clusterAPI scenarioConfig"
  let ?s = "emptyCluster\<lparr>namespaces := [''default'' \<mapsto> greetingNamespace ?o]\<rparr>"
  have f: "client ?o = clusterAPI" "namespace ?o = ''default''" "Port scenarioConfig = 80"
    by (simp_all add: operatorOn_def scenarioConfig_def)
  have n: "NewGreetingOperator (Inr ()) (\<lambda>cfg. Inr clusterAPI) scenarioConfig = Inr ?o"
    by (rule NewGreetingOperator_operatorOn)
  have h: "createService (traced ?o) (?s, [])
             = (None, (?s\<lparr>services := [(''default'', ''greeting'') \<mapsto> greetingService ?o]\<rparr>,
                       [CreateService ''default'' (greetingService ?o)]))"
    by (simp add: createService_traced_cluster f emptyCluster_def)
  have i: "int32 80 = 80"
    by (simp add: int32_def)
  show ?thesis
    using createService_resource [OF n h] n h f(3) i unfolding Let_def by simp
qed

text \<open>
  C5 as it was stated, with the target port equal to the port of every configuration, fails
  on a port outside the range of \<^verbatim>\<open>int32\<close>: for the port 2147483648 the service that
  \<open>createService\<close> submits has the target port -2147483648.
\<close>

theorem createService_target_port_wraps:
  "Port overflowConfig = 2147483648
 \<and> fst (createService (traced (operatorOn clusterAPI overflowConfig))
          (snd (createNamespace (operatorOn clusterAPI overflowConfig) emptyCluster), [])) = None
 \<and> submitted_services
      (snd (snd (createService (traced (operatorOn clusterAPI overflowConfig))
                  (snd (createNamespace (operatorOn clusterAPI overflowConfig) emptyCluster), []))))
     = [(''default'', greetingService (operatorOn clusterAPI overflowConfig))]
 \<and> ServiceSpec_Ports (Service_Spec (greetingService (operatorOn clusterAPI overflowConfig)))
     = [\<lparr>ServicePort_Name = ''http'',
         ServicePort_Protocol = ProtocolTCP,
         ServicePort_Port = 80,
         ServicePort_TargetPort =
           \<lparr>IntOrString_Type = intstr_Int,
            IntOrString_IntVal = - 2147483648,
            IntOrString_StrVal = []\<rparr>\<rparr>]
 \<and> map IntOrString_IntVal
      (map ServicePort_TargetPort
        (ServiceSpec_Ports (Service_Spec (greetingService (operatorOn clusterAPI overflowConfig)))))
     \<noteq> [Port overflowConfig]"
proof -
  let ?o = "operatorOn clusterAPI overflowConfig"
  have f: "client ?o = clusterAPI" "namespace ?o = ''default''" "port ?o = 2147483648"
    "Port overflowConfig = 2147483648"
    by (simp_all add: operatorOn_def overflowConfig_def)
  have n: "namespaces (snd (createNamespace ?o emptyCluster)) (namespace ?o) \<noteq> None"
    by (simp add: createNamespace_cluster [OF f(1)] emptyCluster_def)
  have e: "services (snd (createNamespace ?o emptyCluster)) = Map.empty"
    by (simp add: createNamespace_cluster [OF f(1)] emptyCluster_def)
  have p: "ServiceSpec_Ports (Service_Spec (greetingService ?o))
     = [\<lparr>ServicePort_Name = ''http'',
         ServicePort_Protocol = ProtocolTCP,
         ServicePort_Port = 80,
         ServicePort_TargetPort =
           \<lparr>IntOrString_Type = intstr_Int,
            IntOrString_IntVal = - 2147483648,
            IntOrString_StrVal = []\<rparr>\<rparr>]"
    by (simp add: greetingService_def FromInt_def int32_def f)
  show ?thesis
    unfolding createService_traced_cluster [OF f(1) n] p
    by (simp add: e f)
qed

subsection \<open>The port flag\<close>

text \<open>
  C6. \<open>run\<close> builds the configuration without a port: the port of the configuration, and of
  the operator made from it, is 0 whatever the command line context answers for an integer
  flag; the result of \<open>run\<close> does not depend on these answers, and every service that a
  run submits has target port 0.
\<close>

theorem run_port_unset:
  assumes "run inClusterConfig (\<lambda>c. map_sum id recording (newForConfig c)) cliCtx (s, [])
             = (r, (s', tr))"
  shows "Port (run_config cliCtx) = 0
       \<and> run_config (cliCtx\<lparr>Context_Int := f\<rparr>) = run_config cliCtx
       \<and> run inClusterConfig newForConfig (cliCtx\<lparr>Context_Int := f\<rparr>) s
           = run inClusterConfig newForConfig cliCtx s
       \<and> (\<forall>opr. NewGreetingOperator inClusterConfig newForConfig (run_config cliCtx) = Inr opr
             \<longrightarrow> port opr = 0)
       \<and> (\<forall>(ns, v) \<in> set (submitted_services tr).
             map ServicePort_TargetPort (ServiceSpec_Ports (Service_Spec v)) = [FromInt 0])"
proof -
  have c: "run_config (cliCtx\<lparr>Context_Int := f\<rparr>) = run_config cliCtx"
    by (simp add: run_config_def)
  have p: "port opr = 0"
    if "NewGreetingOperator inClusterConfig newForConfig (run_config cliCtx) = Inr opr" for opr
    using NewGreetingOperator_Inr(2) [OF that] by (simp add: run_config_def)
  have t: "map ServicePort_TargetPort (ServiceSpec_Ports (Service_Spec v)) = [FromInt 0]"
    if "(ns, v) \<in> set (submitted_services tr)" for ns v
  proof (cases "NewGreetingOperator inClusterConfig newForConfig (run_config cliCtx)")
    case (Inl err)
    with assms have "tr = []"
      by (simp add: run_def NewGreetingOperator_recording)
    with that show ?thesis by simp
  next
    case (Inr opr)
    with assms obtain r0 where "Start (traced opr) (s, []) = (r0, (s', tr))"
      by (auto simp: run_def NewGreetingOperator_recording split: prod.splits option.splits)
    from Start_submitted_services [OF this] that have "v = greetingService opr"
      by auto
    with p [OF Inr] show ?thesis
      by (simp add: greetingService_def)
  qed
  show ?thesis
    using c p t by (auto simp: run_config_def run_def)
qed

theorem run_port_unset_witness:
  "let opr = operatorOn clusterAPI (run_config scenarioFlags);
       v = greetingService opr;
       tr = [CreateNamespace (greetingNamespace opr),
             CreateDeployment ''default'' (greetingDeployment opr),
             CreateService ''default'' v]
   in Context_Int scenarioFlags ''port'' = 8080
    \<and> run (Inr ()) (\<lambda>cfg. map_sum id recording (Inr clusterAPI)) scenarioFlags (emptyCluster, [])
        = (None, (snd (Start opr emptyCluster), tr))
    \<and> submitted_services tr = [(''default'', v)]
    \<and> map ServicePort_TargetPort (ServiceSpec_Ports (Service_Spec v)) = [FromInt 0]
    \<and> port opr = 0"
proof -
  let ?o = "operatorOn clusterAPI (run_config scenarioFlags)"
  have f: "client ?o = clusterAPI" "namespace ?o = ''default''"
    "Context_Int scenarioFlags ''port'' = 8080"
    by (simp_all add: operatorOn_def run_config_def scenarioFlags_def)
  have n: "NewGreetingOperator (Inr ()) (\<lambda>cfg. map_sum id recording (Inr clusterAPI))
             (run_config scenarioFlags) = Inr (traced ?o)"
    by (simp add: NewGreetingOperator_def operatorOn_def traced_def)
  have h: "run (Inr ()) (\<lambda>cfg. map_sum id recording (Inr clusterAPI)) scenarioFlags (emptyCluster, [])
             = (None, (snd (Start ?o emptyCluster),
                  [CreateNamespace (greetingNamespace ?o),
                   CreateDeployment ''default'' (greetingDeployment ?o),
                   CreateService ''default'' (greetingService ?o)]))"
    unfolding run_def Let_def n
    by (simp add: Start_traced_cluster f emptyCluster_def)
  show ?thesis
    using run_port_unset [OF h] h f(3)
      NewGreetingOperator_operatorOn [of "()" clusterAPI "run_config scenarioFlags"]
    unfolding Let_def by simp
qed

subsection \<open>The namespace\<close>

text \<open>
  C7. \<open>createNamespace\<close> makes exactly one request, the create request for the namespace
  of the operator, and no update request. It returns no error when the create call
  succeeds and when the create call reports that the namespace already exists; any other
  error of the create call is returned, wrapped.
\<close>

theorem createNamespace_create_only:
  assumes "createNamespace (traced opr) (s, []) = (r, (s', tr))"
  shows "tr = [CreateNamespace (greetingNamespace opr)]
       \<and> filter is_update_call tr = []
       \<and> ObjectMeta_Name (Namespace_ObjectMeta (greetingNamespace opr)) = namespace opr
       \<and> (fst (client opr (CreateNamespace (greetingNamespace opr)) s) = None \<longrightarrow> r = None)
       \<and> (\<forall>err. fst (client opr (CreateNamespace (greetingNamespace opr)) s) = Some err
                \<and> IsAlreadyExists err \<longrightarrow> r = None)
       \<and> (\<forall>err. fst (client opr (CreateNamespace (greetingNamespace opr)) s) = Some err
                \<and> \<not> IsAlreadyExists err \<longrightarrow> r = Some (Errorf ''create namespace: '' err))"
  using assms unfolding createNamespace_traced
  by (auto simp: createNamespace_def greetingNamespace_def split: prod.splits option.splits if_splits)

theorem createNamespace_create_only_witness:
  "(let opr = operatorOn clusterAPI scenarioConfig;
        n = greetingNamespace opr;
        created = emptyCluster\<lparr>namespaces := [''default'' \<mapsto> n]\<rparr>
    in fst (client opr (CreateNamespace n) emptyCluster) = None
     \<and> createNamespace (traced opr) (emptyCluster, []) = (None, (created, [CreateNamespace n]))
     \<and> fst (client opr (CreateNamespace n) created) = Some (StatusError StatusReasonAlreadyExists)
     \<and> IsAlreadyExists (StatusError StatusReasonAlreadyExists)
     \<and> createNamespace (traced opr) (created, []) = (None, (created, [CreateNamespace n]))
     \<and> filter is_update_call [CreateNamespace n] = [])
 \<and> (let opr = operatorOn unreachable scenarioConfig;
        n = greetingNamespace opr;
        err = ErrorString ''connection refused''
    in fst (client opr (CreateNamespace n) ()) = Some err
     \<and> \<not> IsAlreadyExists err
     \<and> createNamespace (traced opr) ((), [])
         = (Some (Errorf ''create namespace: '' err), ((), [CreateNamespace n])))"
proof -
  let ?c = "operatorOn clusterAPI scenarioConfig"
  let ?u = "operatorOn unreachable scenarioConfig :: unit GreetingOperator"
  let ?s1 = "emptyCluster\<lparr>namespaces := [''default'' \<mapsto> greetingNamespace ?c]\<rparr>"
  have f: "client ?c = clusterAPI" "namespace ?c = ''default''" "client ?u = unreachable"
    by (simp_all add: operatorOn_def scenarioConfig_def)
  have r: "fst (client ?c (CreateNamespace (greetingNamespace ?c)) emptyCluster) = None"
    "fst (client ?c (CreateNamespace (greetingNamespace ?c)) ?s1)
       = Some (StatusError StatusReasonAlreadyExists)"
    "fst (client ?u (CreateNamespace (greetingNamespace ?u)) ())
       = Some (ErrorString ''connection refused'')"
    by (simp_all add: f clusterAPI.simps greetingNamespace_def emptyCluster_def unreachable_def
          Let_def)
  have a: "createNamespace (traced ?c) (emptyCluster, [])
             = (None, (?s1, [CreateNamespace (greetingNamespace ?c)]))"
    unfolding createNamespace_traced
    by (simp add: createNamespace_cluster f emptyCluster_def)
  have b: "createNamespace (traced ?c) (?s1, [])
             = (None, (?s1, [CreateNamespace (greetingNamespace ?c)]))"
    unfolding createNamespace_traced
    by (simp add: createNamespace_cluster f emptyCluster_def)
  obtain r0 s0 t0 where c: "createNamespace (traced ?u) ((), []) = (r0, (s0, t0))"
    by (metis surj_pair)
  show ?thesis
    using createNamespace_create_only [OF a] createNamespace_create_only [OF b]
      createNamespace_create_only [OF c] a b c r
    unfolding Let_def by simp
qed

subsection \<open>The deployment\<close>

text \<open>
  C8. In every deployment that \<open>createDeployment\<close> submits (there is at least one), the
  match labels of the selector are the labels of the pod template, and both are
  app = greeting.
\<close>

theorem createDeployment_labels_match:
  assumes "createDeployment (traced opr) (s, []) = (r, (s', tr))"
  shows "submitted_deployments tr \<noteq> []
       \<and> (\<forall>(ns, d) \<in> set (submitted_deployments tr).
            map_option LabelSelector_MatchLabels (DeploymentSpec_Selector (Deployment_Spec d))
              = Some (ObjectMeta_Labels
                       (PodTemplateSpec_ObjectMeta (DeploymentSpec_Template (Deployment_Spec d))))
          \<and> ObjectMeta_Labels
               (PodTemplateSpec_ObjectMeta (DeploymentSpec_Template (Deployment_Spec d)))
              = [''app'' \<mapsto> ''greeting''])"
  using createDeployment_submitted [OF assms]
  by (simp add: greetingDeployment_def podTpl_def objMeta_def)

theorem createDeployment_labels_match_witness:
  "let opr = operatorOn deploymentExists scenarioConfig;
       d = greetingDeployment opr;
       tr = [CreateDeployment ''default'' d, UpdateDeployment ''default'' d]
   in createDeployment (traced opr) ((), []) = (None, ((), tr))
    \<and> submitted_deployments tr = [(''default'', d), (''default'', d)]
    \<and> DeploymentSpec_Selector (Deployment_Spec d)
        = Some \<lparr>LabelSelector_MatchLabels = [''app'' \<mapsto> ''greeting'']\<rparr>
    \<and> ObjectMeta_Labels (PodTemplateSpec_ObjectMeta (DeploymentSpec_Template (Deployment_Spec d)))
        = [''app'' \<mapsto> ''greeting'']"
proof -
  let ?o = "operatorOn deploymentExists scenarioConfig :: unit GreetingOperator"
  have f: "client ?o = deploymentExists" "namespace ?o = ''default''"
    by (simp_all add: operatorOn_def scenarioConfig_def)
  have u: "createDeployment ?o () = (None, ())"
    by (simp add: createDeployment_def f)
  have h: "createDeployment (traced ?o) ((), [])
             = (None, ((), [CreateDeployment ''default'' (greetingDeployment ?o),
                            UpdateDeployment ''default'' (greetingDeployment ?o)]))"
    unfolding createDeployment_traced by (simp add: u f)
  have l: "DeploymentSpec_Selector (Deployment_Spec (greetingDeployment ?o))
             = Some \<lparr>LabelSelector_MatchLabels = [''app'' \<mapsto> ''greeting'']\<rparr>"
    by (simp add: greetingDeployment_def)
  have t: "ObjectMeta_Labels
             (PodTemplateSpec_ObjectMeta (DeploymentSpec_Template (Deployment_Spec (greetingDeployment ?o))))
           = [''app'' \<mapsto> ''greeting'']"
    using createDeployment_labels_match [OF h] by simp
  have m: "submitted_deployments [CreateDeployment ''default'' (greetingDeployment ?o),
                            UpdateDeployment ''default'' (greetingDeployment ?o)]
            = [(''default'', greetingDeployment ?o), (''default'', greetingDeployment ?o)]"
    by simp
  show ?thesis
    unfolding Let_def using h l t m by (intro conjI)
qed

text \<open>
  C9. For an operator constructed from a configuration, every deployment that
  \<open>createDeployment\<close> submits (there is at least one) is submitted in the namespace of the
  configuration, is named greeting, has restart policy always, and has exactly one
  container: its image is the image of the configuration, its environment is the variable
  NAME with the name of the configuration as value, its liveness probe is an HTTP GET on
  the path /health, and its image pull policy is never.
\<close>

theorem createDeployment_resource:
  assumes "NewGreetingOperator inClusterConfig newForConfig config = Inr opr"
      and "createDeployment (traced opr) (s, []) = (r, (s', tr))"
  shows "submitted_deployments tr \<noteq> []
       \<and> (\<forall>(ns, d) \<in> set (submitted_deployments tr).
            ns = Namespace config
          \<and> ObjectMeta_Name (Deployment_ObjectMeta d) = ''greeting''
          \<and> PodSpec_RestartPolicy (PodTemplateSpec_Spec (DeploymentSpec_Template (Deployment_Spec d)))
              = RestartPolicyAlways
          \<and> (\<exists>c. PodSpec_Containers
                     (PodTemplateSpec_Spec (DeploymentSpec_Template (Deployment_Spec d))) = [c]
                 \<and> Container_Image c = Image config
                 \<and> Container_Env c = [\<lparr>EnvVar_Name = ''NAME'', EnvVar_Value = Name config\<rparr>]
                 \<and> (\<exists>probe get. Container_LivenessProbe c = Some probe
                        \<and> ProbeHandler_HTTPGet (Probe_ProbeHandler probe) = Some get
                        \<and> HTTPGetAction_Path get = ''/health'')
                 \<and> Container_ImagePullPolicy c = PullNever))"
  using createDeployment_submitted [OF assms(2)] NewGreetingOperator_Inr [OF assms(1)]
  by (simp add: greetingDeployment_def podTpl_def objMeta_def)

theorem createDeployment_resource_witness:
  "let opr = operatorOn clusterAPI scenarioConfig;
       d = greetingDeployment opr;
       s = emptyCluster\<lparr>namespaces := [''default'' \<mapsto> greetingNamespace opr]\<rparr>
   in NewGreetingOperator (Inr ()) (\<lambda>cfg. Inr clusterAPI) scenarioConfig = Inr opr
    \<and> createDeployment (traced opr) (s, [])
        = (None, (s\<lparr>deployments := [(''default'', ''greeting'') \<mapsto> d]\<rparr>,
                  [CreateDeployment ''default'' d]))
    \<and> ObjectMeta_Name (Deployment_ObjectMeta d) = ''greeting''
    \<and> PodSpec_RestartPolicy (PodTemplateSpec_Spec (DeploymentSpec_Template (Deployment_Spec d)))
        = RestartPolicyAlways
    \<and> PodSpec_Containers (PodTemplateSpec_Spec (DeploymentSpec_Template (Deployment_Spec d)))
        = [\<lparr>Container_Name = ''greeting'',
            Container_Image = ''greeting:latest'',
            Container_Ports =
              [\<lparr>ContainerPort_Name = ''http'',
                ContainerPort_Protocol = ProtocolTCP,
                ContainerPort_ContainerPort = 80\<rparr>],
            Container_Env = [\<lparr>EnvVar_Name = ''NAME'', EnvVar_Value = ''Foo Bar''\<rparr>],
            Container_LivenessProbe =
              Some \<lparr>Probe_ProbeHandler =
                      \<lparr>ProbeHandler_HTTPGet =
                         Some \<lparr>HTTPGetAction_Path = ''/health'',
                               HTTPGetAction_Port = FromInt 80\<rparr>\<rparr>,
                    Probe_TimeoutSeconds = 3\<rparr>,
            Container_ImagePullPolicy = PullNever\<rparr>]"
proof -
  let ?o = "operatorOn clusterAPI scenarioConfig"
  let ?s = "emptyCluster\<lparr>namespaces := [''default'' \<mapsto> greetingNamespace ?o]\<rparr>"
  have f: "client ?o = clusterAPI" "namespace ?o = ''default''"
    "image ?o = ''greeting:latest''" "name ?o = ''Foo Bar''"
    by (simp_all add: operatorOn_def scenarioConfig_def)
  have n: "NewGreetingOperator (Inr ()) (\<lambda>cfg. Inr clusterAPI) scenarioConfig = Inr ?o"
    by (rule NewGreetingOperator_operatorOn)
  have h: "createDeployment (traced ?o) (?s, [])
             = (None, (?s\<lparr>deployments :=
                               [(''default'', ''greeting'') \<mapsto> greetingDeployment ?o]\<rparr>,
                       [CreateDeployment ''default'' (greetingDeployment ?o)]))"
    by (simp add: createDeployment_traced_cluster f emptyCluster_def)
  have c: "PodSpec_Containers
             (PodTemplateSpec_Spec (DeploymentSpec_Template (Deployment_Spec (greetingDeployment ?o))))
           = [\<lparr>Container_Name = ''greeting'',
            Container_Image = ''greeting:latest'',
            Container_Ports =
              [\<lparr>ContainerPort_Name = ''http'',
                ContainerPort_Protocol = ProtocolTCP,
                ContainerPort_ContainerPort = 80\<rparr>],
            Container_Env = [\<lparr>EnvVar_Name = ''NAME'', EnvVar_Value = ''Foo Bar''\<rparr>],
            Container_LivenessProbe =
              Some \<lparr>Probe_ProbeHandler =
                      \<lparr>ProbeHandler_HTTPGet =
                         Some \<lparr>HTTPGetAction_Path = ''/health'',
                               HTTPGetAction_Port = FromInt 80\<rparr>\<rparr>,
                    Probe_TimeoutSeconds = 3\<rparr>,
            Container_ImagePullPolicy = PullNever\<rparr>]"
    by (simp add: greetingDeployment_def podTpl_def f)
  show ?thesis
    using createDeployment_resource [OF n h] n h c unfolding Let_def by simp
qed

text \<open>
  C10. Every deployment that \<open>createDeployment\<close> submits (there is at least one) declares
  the container port 80 and the liveness probe port 80, and neither the requests of
  \<open>createDeployment\<close> nor those of \<open>createNamespace\<close> change when the port of the operator
  does. The services that \<open>createService\<close> submits do change with the port, and only in the
  target port of their port, which is what \<^verbatim>\<open>intstr.FromInt\<close> makes of the port of the
  operator.
\<close>

theorem ports_of_deployment_fixed:
  assumes "createDeployment (traced opr) (s, []) = (r, (s', tr))"
      and "createService (traced opr) (t, []) = (q, (t', ts))"
      and "createService (traced (opr\<lparr>port := p\<rparr>)) (u, []) = (q', (u', us))"
  shows "submitted_deployments tr \<noteq> []
       \<and> (\<forall>(ns, d) \<in> set (submitted_deployments tr).
            map (\<lambda>c. map ContainerPort_ContainerPort (Container_Ports c))
              (PodSpec_Containers
                (PodTemplateSpec_Spec (DeploymentSpec_Template (Deployment_Spec d))))
              = [[80]]
          \<and> map (\<lambda>c. map_option (\<lambda>probe. map_option HTTPGetAction_Port
                                           (ProbeHandler_HTTPGet (Probe_ProbeHandler probe)))
                       (Container_LivenessProbe c))
              (PodSpec_Containers
                (PodTemplateSpec_Spec (DeploymentSpec_Template (Deployment_Spec d))))
              = [Some (Some \<lparr>IntOrString_Type = intstr_Int,
                             IntOrString_IntVal = 80,
                             IntOrString_StrVal = []\<rparr>)])
       \<and> createDeployment (traced (opr\<lparr>port := p\<rparr>)) (s, []) = (r, (s', tr))
       \<and> createNamespace (traced (opr\<lparr>port := p\<rparr>)) (s, [])
           = createNamespace (traced opr) (s, [])
       \<and> submitted_services ts \<noteq> [] \<and> submitted_services us \<noteq> []
       \<and> (\<forall>(ns, v) \<in> set (submitted_services ts).
            map ServicePort_TargetPort (ServiceSpec_Ports (Service_Spec v))
              = [FromInt (port opr)]
          \<and> map (\<lambda>sp. IntOrString_IntVal (ServicePort_TargetPort sp))
               (ServiceSpec_Ports (Service_Spec v)) = [int32 (port opr)]
          \<and> (\<forall>(ns', v') \<in> set (submitted_services us).
                ns' = ns
              \<and> map ServicePort_TargetPort (ServiceSpec_Ports (Service_Spec v')) = [FromInt p]
              \<and> v' = v\<lparr>Service_Spec := (Service_Spec v)
                          \<lparr>ServiceSpec_Ports :=
                             map (\<lambda>sp. sp\<lparr>ServicePort_TargetPort := FromInt p\<rparr>)
                               (ServiceSpec_Ports (Service_Spec v))\<rparr>\<rparr>))"
proof -
  have d: "set (submitted_deployments tr) = {(namespace opr, greetingDeployment opr)}"
    and d0: "submitted_deployments tr \<noteq> []"
    using createDeployment_submitted [OF assms(1)] by simp_all
  have v: "set (submitted_services ts) = {(namespace opr, greetingService opr)}"
    and v0: "submitted_services ts \<noteq> []"
    using createService_submitted [OF assms(2)] by simp_all
  have w: "set (submitted_services us) = {(namespace opr, greetingService (opr\<lparr>port := p\<rparr>))}"
    and w0: "submitted_services us \<noteq> []"
    using createService_submitted [OF assms(3)] by simp_all
  have i: "int32 80 = 80"
    by (simp add: int32_def)
  have c: "createDeployment (traced (opr\<lparr>port := p\<rparr>)) (s, []) = (r, (s', tr))"
    using assms(1) by (simp add: port_update_traced)
  show ?thesis
    unfolding d v w
    using d0 v0 w0 c
    by (simp add: port_update_traced greetingDeployment_def podTpl_def greetingService_def
          FromInt_def i)
qed

theorem ports_of_deployment_fixed_witness:
  "let opr = operatorOn clusterAPI scenarioConfig;
       s = emptyCluster\<lparr>namespaces := [''default'' \<mapsto> greetingNamespace opr]\<rparr>;
       d = greetingDeployment opr;
       v = greetingService opr;
       v' = greetingService (opr\<lparr>port := 8080\<rparr>)
   in port opr = 80
    \<and> createDeployment (traced opr) (s, [])
        = (None, (s\<lparr>deployments := [(''default'', ''greeting'') \<mapsto> d]\<rparr>,
                  [CreateDeployment ''default'' d]))
    \<and> createDeployment (traced (opr\<lparr>port := 8080\<rparr>)) (s, [])
        = (None, (s\<lparr>deployments := [(''default'', ''greeting'') \<mapsto> d]\<rparr>,
                  [CreateDeployment ''default'' d]))
    \<and> createService (traced opr) (s, [])
        = (None, (s\<lparr>services := [(''default'', ''greeting'') \<mapsto> v]\<rparr>,
                  [CreateService ''default'' v]))
    \<and> createService (traced (opr\<lparr>port := 8080\<rparr>)) (s, [])
        = (None, (s\<lparr>services := [(''default'', ''greeting'') \<mapsto> v']\<rparr>,
                  [CreateService ''default'' v']))
    \<and> map (\<lambda>sp. IntOrString_IntVal (ServicePort_TargetPort sp))
        (ServiceSpec_Ports (Service_Spec v)) = [80]
    \<and> map (\<lambda>sp. IntOrString_IntVal (ServicePort_TargetPort sp))
        (ServiceSpec_Ports (Service_Spec v')) = [8080]
    \<and> map (\<lambda>c. map ContainerPort_ContainerPort (Container_Ports c))
        (PodSpec_Containers (PodTemplateSpec_Spec (DeploymentSpec_Template (Deployment_Spec d))))
        = [[80]]"
proof -
  let ?o = "operatorOn clusterAPI scenarioConfig"
  let ?p = "?o\<lparr>port := 8080\<rparr>"
  let ?s = "emptyCluster\<lparr>namespaces := [''default'' \<mapsto> greetingNamespace ?o]\<rparr>"
  have f: "client ?o = clusterAPI" "namespace ?o = ''default''" "port ?o = 80"
    "client ?p = clusterAPI" "namespace ?p = ''default''"
    by (simp_all add: operatorOn_def scenarioConfig_def)
  have n: "namespaces ?s ''default'' \<noteq> None" "deployments ?s = Map.empty"
    "services ?s = Map.empty"
    by (simp_all add: emptyCluster_def)
  have hd: "createDeployment (traced ?o) (?s, [])
             = (None, (?s\<lparr>deployments :=
                               [(''default'', ''greeting'') \<mapsto> greetingDeployment ?o]\<rparr>,
                       [CreateDeployment ''default'' (greetingDeployment ?o)]))"
    by (simp add: createDeployment_traced_cluster f n)
  have hv: "createService (traced ?o) (?s, [])
             = (None, (?s\<lparr>services := [(''default'', ''greeting'') \<mapsto> greetingService ?o]\<rparr>,
                       [CreateService ''default'' (greetingService ?o)]))"
    by (simp add: createService_traced_cluster f n)
  have hw: "createService (traced ?p) (?s, [])
             = (None, (?s\<lparr>services := [(''default'', ''greeting'') \<mapsto> greetingService ?p]\<rparr>,
                       [CreateService ''default'' (greetingService ?p)]))"
    by (simp add: createService_traced_cluster f n)
  have i: "int32 80 = 80" "int32 8080 = 8080"
    by (simp_all add: int32_def)
  have t: "map (\<lambda>sp. IntOrString_IntVal (ServicePort_TargetPort sp))
             (ServiceSpec_Ports (Service_Spec (greetingService ?p))) = [8080]"
    by (simp add: greetingService_def FromInt_def i)
  have g: "createDeployment (traced ?p) (?s, [])
             = (None, (?s\<lparr>deployments :=
                               [(''default'', ''greeting'') \<mapsto> greetingDeployment ?o]\<rparr>,
                       [CreateDeployment ''default'' (greetingDeployment ?o)]))"
    and u: "map (\<lambda>sp. IntOrString_IntVal (ServicePort_TargetPort sp))
              (ServiceSpec_Ports (Service_Spec (greetingService ?o))) = [80]"
    and k: "map (\<lambda>c. map ContainerPort_ContainerPort (Container_Ports c))
              (PodSpec_Containers
                (PodTemplateSpec_Spec
                  (DeploymentSpec_Template (Deployment_Spec (greetingDeployment ?o)))))
            = [[80]]"
    using ports_of_deployment_fixed [OF hd hv hw] by (simp_all add: f i)
  show ?thesis
    unfolding Let_def using f(3) hd g hv hw u t k by (intro conjI)
qed

end
